theory Spec2Isabelle
  imports Complex_Main "HOL-Library.Word" "HOL-Library.AList"
begin

section \<open>Data model (app/models/schemas.py, app/core/config.py)\<close>

text \<open>
  A Python \<^verbatim>\<open>float\<close> is an IEEE double: a finite value, an infinity or NaN.  The
  cascade only compares floats, so a finite float is named by the real number it
  denotes; no float arithmetic is modelled.  \<^verbatim>\<open>a >= b\<close> is false as soon as one side is
  NaN.
\<close>

datatype pyfloat = Finite real | PosInf | NegInf | NaN

fun float_ge :: "pyfloat \<Rightarrow> pyfloat \<Rightarrow> bool" where
  "float_ge NaN _ = False"
| "float_ge _ NaN = False"
| "float_ge PosInf _ = True"
| "float_ge _ NegInf = True"
| "float_ge NegInf _ = False"
| "float_ge _ PosInf = False"
| "float_ge (Finite a) (Finite b) = (b \<le> a)"

type_synonym bytes = "8 word list"

text \<open>\<^verbatim>\<open>class TierUsed(str, Enum)\<close>: \<^verbatim>\<open>TIER_1 = "text_only"\<close>, \<^verbatim>\<open>TIER_2 = "vision_fallback"\<close>.\<close>

datatype TierUsed = TIER_1 | TIER_2

text \<open>\<^verbatim>\<open>class InvoiceMetadata(SQLModel)\<close>, the structured output of a backend.\<close>

record InvoiceMetadata =
  company_name :: string
  po_number :: string
  invoice_number :: string
  confidence :: pyfloat

text \<open>
  The exceptions the code raises itself, one constructor for any other subclass of
  \<^verbatim>\<open>Exception\<close> that a provider client raises, and one for the signals that are
  \<^verbatim>\<open>BaseException\<close> only (\<^verbatim>\<open>asyncio.CancelledError\<close>, \<^verbatim>\<open>KeyboardInterrupt\<close>), which
  \<^verbatim>\<open>except Exception\<close> does not catch.
\<close>

datatype exn =
    ValueError string
  | AttributeError string
  | UnboundLocalError string
  | ProviderError string
  | CancelledError

fun is_Exception :: "exn \<Rightarrow> bool" where
  "is_Exception CancelledError = False"
| "is_Exception _ = True"

text \<open>The fields of \<^verbatim>\<open>Settings\<close> that the modelled code reads.\<close>

record Settings =
  LLM_PROVIDER :: string
  MODEL_A_NAME :: string
  MODEL_B_NAME :: string

definition settings :: Settings where
  "settings = \<lparr>LLM_PROVIDER = ''openai'', MODEL_A_NAME = ''gpt-4o-mini'', MODEL_B_NAME = ''gpt-4o''\<rparr>"

section \<open>Python strings and the regular expressions of the normalizer\<close>

text \<open>
  A Python \<^verbatim>\<open>str\<close> that the code inspects is a sequence of Unicode code points: a list
  of natural numbers.  \<open>py\<close> reads a literal of the source, whose characters are all
  below U+0100, as such a sequence.
\<close>

definition py :: "string \<Rightarrow> nat list" where
  "py s = map of_char s"

text \<open>
  Python truthiness of an \<^verbatim>\<open>Optional[str]\<close> or \<^verbatim>\<open>Optional[bytes]\<close> argument: \<^verbatim>\<open>None\<close> and
  the empty value are falsy.
\<close>

fun truthy :: "'a list option \<Rightarrow> bool" where
  "truthy None = False"
| "truthy (Some xs) = (xs \<noteq> [])"

text \<open>
  \<^verbatim>\<open>str.isspace\<close> of one character, which is also the class \<^verbatim>\<open>\s\<close> and what
  \<^verbatim>\<open>str.strip()\<close> removes: the whitespace of the Unicode character database, a finite
  set (U+0009 to U+000D, U+001C to U+0020, U+0085, U+00A0, U+1680, U+2000 to U+200A,
  U+2028, U+2029, U+202F, U+205F, U+3000).
\<close>

definition isspace :: "nat \<Rightarrow> bool" where
  "isspace c =
     ((0x09 \<le> c \<and> c \<le> 0x0D) \<or> (0x1C \<le> c \<and> c \<le> 0x20) \<or> c = 0x85 \<or> c = 0xA0
      \<or> c = 0x1680 \<or> (0x2000 \<le> c \<and> c \<le> 0x200A) \<or> c = 0x2028 \<or> c = 0x2029
      \<or> c = 0x202F \<or> c = 0x205F \<or> c = 0x3000)"

text \<open>
  The rest of the Unicode character database is not part of the repository.  Below
  U+0100 its tables are written out; beyond, they are parameters: which characters are
  alphanumeric (\<^verbatim>\<open>str.isalnum\<close>), what \<^verbatim>\<open>str.lower()\<close> makes of a string that holds such
  a character, and which characters a literal beyond ASCII matches under
  \<^verbatim>\<open>re.IGNORECASE\<close> (the first argument is the literal of the pattern).
\<close>

record unicode_data =
  alnum_beyond :: "nat \<Rightarrow> bool"
  lower_beyond :: "nat list \<Rightarrow> nat list"
  ignorecase_beyond :: "nat \<Rightarrow> nat \<Rightarrow> bool"

text \<open>\<^verbatim>\<open>str.isalnum\<close> of one character.  No whitespace character is alphanumeric.\<close>

definition isalnum :: "unicode_data \<Rightarrow> nat \<Rightarrow> bool" where
  "isalnum ucd c =
     (if c < 256 then
        (48 \<le> c \<and> c \<le> 57) \<or> (65 \<le> c \<and> c \<le> 90) \<or> (97 \<le> c \<and> c \<le> 122)
        \<or> c = 170 \<or> c = 178 \<or> c = 179 \<or> c = 181 \<or> c = 185 \<or> c = 186
        \<or> (188 \<le> c \<and> c \<le> 190) \<or> (192 \<le> c \<and> c \<le> 214) \<or> (216 \<le> c \<and> c \<le> 246)
        \<or> 248 \<le> c
      else alnum_beyond ucd c \<and> \<not> isspace c)"

text \<open>The class \<^verbatim>\<open>\w\<close>: alphanumeric or the underscore.\<close>

definition is_word :: "unicode_data \<Rightarrow> nat \<Rightarrow> bool" where
  "is_word ucd c = (isalnum ucd c \<or> c = 0x5F)"

text \<open>\<^verbatim>\<open>str.lower()\<close>: character by character on a string below U+0100.\<close>

definition lower_char :: "nat \<Rightarrow> nat" where
  "lower_char c =
     (if (65 \<le> c \<and> c \<le> 90) \<or> (192 \<le> c \<and> c \<le> 214) \<or> (216 \<le> c \<and> c \<le> 222)
      then c + 32 else c)"

definition lower :: "unicode_data \<Rightarrow> nat list \<Rightarrow> nat list" where
  "lower ucd s = (if list_all (\<lambda>c. c < 256) s then map lower_char s else lower_beyond ucd s)"

definition strip :: "nat list \<Rightarrow> nat list" where
  "strip s = rev (dropWhile isspace (rev (dropWhile isspace s)))"

text \<open>
  Whether the subject character \<open>c\<close> matches the literal \<open>a\<close> of a pattern compiled with
  \<^verbatim>\<open>re.IGNORECASE\<close>.  For an ASCII literal: the literal itself, for a letter its other
  case, and the three characters beyond ASCII that the engine folds to an ASCII letter:
  U+0130 and U+0131 match \<^verbatim>\<open>i\<close>, U+212A matches \<^verbatim>\<open>k\<close>, U+017F matches \<^verbatim>\<open>s\<close>.
\<close>

definition ignorecase_eq :: "unicode_data \<Rightarrow> nat \<Rightarrow> nat \<Rightarrow> bool" where
  "ignorecase_eq ucd a c =
     (if a < 128 then
        c = a \<or> (65 \<le> a \<and> a \<le> 90 \<and> c = a + 32) \<or> (97 \<le> a \<and> a \<le> 122 \<and> c = a - 32)
        \<or> ((a = 0x49 \<or> a = 0x69) \<and> (c = 0x130 \<or> c = 0x131))
        \<or> ((a = 0x4B \<or> a = 0x6B) \<and> c = 0x212A)
        \<or> ((a = 0x53 \<or> a = 0x73) \<and> c = 0x17F)
      else ignorecase_beyond ucd a c)"

text \<open>
  The fragment of Python's \<^verbatim>\<open>re\<close> syntax that the two patterns of the normalizer use:
  a literal, a negated set of the classes \<^verbatim>\<open>\w\<close> and \<^verbatim>\<open>\s\<close>, the assertion \<^verbatim>\<open>\b\<close>,
  concatenation, alternation \<^verbatim>\<open>|\<close> and the greedy \<^verbatim>\<open>?\<close>.
\<close>

datatype cls = Word_class | Space_class

fun in_cls :: "unicode_data \<Rightarrow> cls \<Rightarrow> nat \<Rightarrow> bool" where
  "in_cls ucd Word_class c = is_word ucd c"
| "in_cls ucd Space_class c = isspace c"

datatype regex =
    Eps
  | Lit nat
  | NotIn "cls list"
  | WordB
  | Seq regex regex
  | Alt regex regex
  | Opt regex

text \<open>
  A position in the subject string is the character before it (\<open>None\<close> at the start)
  and the rest of the string.  \<^verbatim>\<open>\b\<close> holds where exactly one of the two sides is a
  word character.
\<close>

type_synonym pos = "nat option \<times> nat list"

fun word_before :: "unicode_data \<Rightarrow> nat option \<Rightarrow> bool" where
  "word_before ucd None = False"
| "word_before ucd (Some c) = is_word ucd c"

fun word_at :: "unicode_data \<Rightarrow> nat list \<Rightarrow> bool" where
  "word_at ucd [] = False"
| "word_at ucd (c # cs) = is_word ucd c"

text \<open>
  The backtracking matcher: \<open>matches ucd ic r p\<close> lists the positions where a match of
  \<open>r\<close> that starts at \<open>p\<close> can end, in the order in which the engine tries them (the
  left alternative first, the optional part taken first).  The engine reports the
  first.  \<open>ic\<close> is the flag \<^verbatim>\<open>re.IGNORECASE\<close>.
\<close>

fun matches :: "unicode_data \<Rightarrow> bool \<Rightarrow> regex \<Rightarrow> pos \<Rightarrow> pos list" where
  "matches ucd ic Eps p = [p]"
| "matches ucd ic (Lit a) (b, []) = []"
| "matches ucd ic (Lit a) (b, c # cs) =
     (if (if ic then ignorecase_eq ucd a c else c = a) then [(Some c, cs)] else [])"
| "matches ucd ic (NotIn ks) (b, []) = []"
| "matches ucd ic (NotIn ks) (b, c # cs) =
     (if list_ex (\<lambda>k. in_cls ucd k c) ks then [] else [(Some c, cs)])"
| "matches ucd ic WordB (b, s) = (if word_before ucd b = word_at ucd s then [] else [(b, s)])"
| "matches ucd ic (Seq r1 r2) p = concat (map (matches ucd ic r2) (matches ucd ic r1 p))"
| "matches ucd ic (Alt r1 r2) p = matches ucd ic r1 p @ matches ucd ic r2 p"
| "matches ucd ic (Opt r) p = matches ucd ic r p @ [p]"

text \<open>\<^verbatim>\<open>re.fullmatch(pattern, string)\<close> finds a match: one that ends at the end of the string.\<close>

definition fullmatch :: "unicode_data \<Rightarrow> bool \<Rightarrow> regex \<Rightarrow> nat list \<Rightarrow> bool" where
  "fullmatch ucd ic r s = list_ex (\<lambda>p. snd p = []) (matches ucd ic r (None, s))"

text \<open>
  \<^verbatim>\<open>re.sub(pattern, '', string)\<close>: scan from the left; where the pattern matches a
  non-empty piece, drop the piece and go on behind it, otherwise keep the character and
  go on one further.  (An empty match is replaced by the empty string, which changes
  nothing.)
\<close>

fun sub_from :: "unicode_data \<Rightarrow> bool \<Rightarrow> regex \<Rightarrow> nat option \<Rightarrow> nat list \<Rightarrow> nat list" where
  "sub_from ucd ic r b [] = []"
| "sub_from ucd ic r b (c # cs) =
     (case matches ucd ic r (b, c # cs) of
        [] \<Rightarrow> c # sub_from ucd ic r (Some c) cs
      | (b', rest) # _ \<Rightarrow>
          if length rest < length (c # cs) then sub_from ucd ic r b' rest
          else c # sub_from ucd ic r (Some c) cs)"

definition re_sub :: "unicode_data \<Rightarrow> bool \<Rightarrow> regex \<Rightarrow> nat list \<Rightarrow> nat list" where
  "re_sub ucd ic r s = sub_from ucd ic r None s"

fun lits :: "string \<Rightarrow> regex" where
  "lits [] = Eps"
| "lits (c # cs) = Seq (Lit (of_char c)) (lits cs)"

text \<open>The group \<^verbatim>\<open>(inc|corp|llc|ltd|incorporated|corporation)\<close>\<close>

definition suffix_words :: regex where
  "suffix_words =
     Alt (lits ''inc'') (Alt (lits ''corp'') (Alt (lits ''llc'') (Alt (lits ''ltd'')
       (Alt (lits ''incorporated'') (lits ''corporation'')))))"

text \<open>\<^verbatim>\<open>r'\b(inc|corp|llc|ltd|incorporated|corporation)\b\.?'\<close>\<close>

definition suffix_pattern :: regex where
  "suffix_pattern = Seq WordB (Seq suffix_words (Seq WordB (Opt (Lit 0x2E))))"

text \<open>\<^verbatim>\<open>r'[^\w\s]'\<close>\<close>

definition special_pattern :: regex where
  "special_pattern = NotIn [Word_class, Space_class]"

section \<open>The company-name normalizer (app/services/normalizer.py)\<close>

text \<open>
  The dictionary file \<^verbatim>\<open>shortnames.json\<close>: missing, holding a JSON object of strings
  (\<^verbatim>\<open>json.dump\<close> followed by \<^verbatim>\<open>json.load\<close> gives the dictionary back, in its insertion
  order), or unreadable (\<^verbatim>\<open>open\<close> or \<^verbatim>\<open>json.load\<close> raises).  \<open>writable\<close> says whether
  \<^verbatim>\<open>open(path, "w")\<close> succeeds.  A Python \<^verbatim>\<open>dict\<close> is an association list with distinct
  keys in insertion order; \<^verbatim>\<open>d[k] = v\<close> is \<^const>\<open>AList.update\<close>.
\<close>

datatype dict_file = Missing | Json "(nat list \<times> nat list) list" | Unreadable

record store =
  shortnames :: dict_file
  writable :: bool

record CompanyNormalizer =
  mappings :: "(nat list \<times> nat list) list"

definition save_dictionary :: "(nat list \<times> nat list) list \<Rightarrow> store \<Rightarrow> store" where
  "save_dictionary data st = (if writable st then st\<lparr>shortnames := Json data\<rparr> else st)"

definition load_dictionary :: "store \<Rightarrow> (nat list \<times> nat list) list \<times> store" where
  "load_dictionary st =
     (case shortnames st of
        Missing \<Rightarrow> ([], save_dictionary [] st)
      | Json data \<Rightarrow> (data, st)
      | Unreadable \<Rightarrow> ([], st))"

definition new_CompanyNormalizer :: "store \<Rightarrow> CompanyNormalizer \<times> store" where
  "new_CompanyNormalizer st =
     (case load_dictionary st of (data, st') \<Rightarrow> (\<lparr>mappings = data\<rparr>, st'))"

definition clean_name :: "unicode_data \<Rightarrow> nat list \<Rightarrow> nat list" where
  "clean_name ucd raw_name =
     strip (re_sub ucd False special_pattern (re_sub ucd True suffix_pattern (strip raw_name)))"

text \<open>The loop over \<^verbatim>\<open>self.mappings.items()\<close>: the first key whose lower case is the search name.\<close>

fun lookup :: "unicode_data \<Rightarrow> (nat list \<times> nat list) list \<Rightarrow> nat list \<Rightarrow> nat list option" where
  "lookup ucd [] search_name = None"
| "lookup ucd ((key, standardized) # rest) search_name =
     (if lower ucd key = search_name then Some standardized else lookup ucd rest search_name)"

definition normalize :: "unicode_data \<Rightarrow> CompanyNormalizer \<Rightarrow> nat list option \<Rightarrow> nat list" where
  "normalize ucd self raw_name =
     (if \<not> truthy raw_name then py ''Unknown_Company''
      else
        (case lookup ucd (mappings self) (lower ucd (clean_name ucd (the raw_name))) of
           Some standardized \<Rightarrow> standardized
         | None \<Rightarrow> filter (\<lambda>c. c \<noteq> 0x20) (clean_name ucd (the raw_name))))"

definition add_mapping ::
  "CompanyNormalizer \<Rightarrow> nat list \<Rightarrow> nat list \<Rightarrow> store \<Rightarrow> CompanyNormalizer \<times> store" where
  "add_mapping self raw_name standardized_name st =
     (let data = AList.update raw_name standardized_name (mappings self)
      in (self\<lparr>mappings := data\<rparr>, save_dictionary data st))"

section \<open>Text extraction (app/services/pdf/processor.py)\<close>

text \<open>
  \<^verbatim>\<open>PDFService.extract_text\<close>.  The PDF library is outside the repository: its part is
  the argument, the texts of the pages in order, or the exception raised while opening
  or reading the document.
\<close>

definition extract_text :: "exn + nat list list \<Rightarrow> exn + nat list" where
  "extract_text doc =
     (case doc of
        Inr pages \<Rightarrow> Inr (strip (concat (map (\<lambda>page. page @ [0x0A]) pages)))
      | Inl e \<Rightarrow> if is_Exception e then Inr [] else Inl e)"

section \<open>Extraction backends (app/services/ai/interface.py)\<close>

text \<open>
  A chat message is a role and a content.  The provider client
  (\<^verbatim>\<open>client.chat.completions.create\<close> patched by \<^verbatim>\<open>instructor\<close>) is outside the repository:
  it is a parameter, a function of the world state \<open>'w\<close>, the model name and the
  messages, that returns a validated \<^verbatim>\<open>InvoiceMetadata\<close> or raises, and the next world
  state.
\<close>

type_synonym message = "string \<times> string"

type_synonym 'w client = "'w \<Rightarrow> string \<Rightarrow> message list \<Rightarrow> (exn + InvoiceMetadata) \<times> 'w"

text \<open>
  What \<^verbatim>\<open>extract_invoice_data(text, image_bytes)\<close> gives back: an exception, or the
  returned Python value, which is \<^verbatim>\<open>None\<close> or an \<^verbatim>\<open>InvoiceMetadata\<close>.
\<close>

type_synonym 'w LLMBackend =
  "string option \<Rightarrow> bytes option \<Rightarrow> 'w \<Rightarrow> (exn + InvoiceMetadata option) \<times> 'w"

definition create :: "'w client \<Rightarrow> string \<Rightarrow> message list \<Rightarrow> 'w \<Rightarrow> (exn + InvoiceMetadata option) \<times> 'w" where
  "create client model messages w =
     (case client w model messages of
        (Inl e, w') \<Rightarrow> (Inl e, w')
      | (Inr m, w') \<Rightarrow> (Inr (Some m), w'))"

text \<open>
  \<^verbatim>\<open>OpenAIBackend.extract_invoice_data\<close>.  When neither branch runs, the local \<^verbatim>\<open>model\<close>
  is never assigned and reading it in the call raises \<^verbatim>\<open>UnboundLocalError\<close> before the
  client is reached.
\<close>

definition OpenAIBackend :: "Settings \<Rightarrow> 'w client \<Rightarrow> 'w LLMBackend" where
  "OpenAIBackend cfg client text image_bytes w =
     (if truthy text \<and> \<not> truthy image_bytes then
        create client (MODEL_A_NAME cfg)
          [(''system'', ''You are an expert invoice parser.''),
           (''user'', ''Extract invoice details from this text:'' @ [CHR 0x0A, CHR 0x0A] @ the text)] w
      else if truthy image_bytes then
        create client (MODEL_B_NAME cfg)
          [(''user'', ''Extract invoice details from this image.'')] w
      else (Inl (UnboundLocalError ''model''), w))"







section \<open>The cascade (app/services/ai/cascade.py)\<close>

record 'w CascadeService =
  backend :: "'w LLMBackend"
  confidence_threshold :: pyfloat

text \<open>The default of \<^verbatim>\<open>__init__\<close>: the double written \<^verbatim>\<open>0.85\<close>.\<close>

definition default_confidence_threshold :: pyfloat where
  "default_confidence_threshold = Finite (7656119366529843 / 2 ^ 53)"

text \<open>
  One entry of the call log: the arguments of one \<^verbatim>\<open>extract_invoice_data\<close> call.
\<close>

type_synonym request = "string option \<times> bytes option"

text \<open>
  \<^verbatim>\<open>CascadeService.process\<close>.  The result is the outcome (the exception that leaves
  \<^verbatim>\<open>process\<close>, or the returned pair), the backend calls made, in order, and the world
  state after them.  The local \<^verbatim>\<open>result\<close> is \<open>None\<close> while unbound and \<open>Some v\<close> once the
  first \<^verbatim>\<open>await\<close> has returned \<open>v\<close>; \<^verbatim>\<open>'result' in locals()\<close> asks which.  A backend that
  returns \<^verbatim>\<open>None\<close> binds \<^verbatim>\<open>result\<close> and then fails at \<^verbatim>\<open>result.confidence\<close> with an
  \<^verbatim>\<open>AttributeError\<close>, which the handler of Tier 1 catches.
\<close>

definition process ::
  "'w CascadeService \<Rightarrow> string \<Rightarrow> bytes option \<Rightarrow> 'w
     \<Rightarrow> (exn + InvoiceMetadata option \<times> TierUsed) \<times> request list \<times> 'w" where
  "process self text image_bytes w =
     (case backend self (Some text) None w of (r1, w1) \<Rightarrow>
        let tier1 =
          (case r1 of
             Inr (Some m) \<Rightarrow>
               if float_ge (confidence m) (confidence_threshold self)
               then Inl (Inr (Some m, TIER_1))
               else Inr (Some (Some m))
           | Inr None \<Rightarrow> Inr (Some None)
           | Inl e \<Rightarrow> if is_Exception e then Inr None else Inl (Inl e))
        in
        (case tier1 of
           Inl out \<Rightarrow> (out, [(Some text, None)], w1)
         | Inr result \<Rightarrow>
             if \<not> truthy image_bytes then
               (case result of
                  Some r \<Rightarrow> (Inr (r, TIER_1), [(Some text, None)], w1)
                | None \<Rightarrow>
                    (Inl (ValueError ''Extraction failed and no image available for fallback.''),
                     [(Some text, None)], w1))
             else
               (case backend self None image_bytes w1 of (r2, w2) \<Rightarrow>
                  (case r2 of
                     Inr vision_result \<Rightarrow> Inr (vision_result, TIER_2)
                   | Inl e \<Rightarrow>
                       if is_Exception e then
                         (case result of Some r \<Rightarrow> Inr (r, TIER_1) | None \<Rightarrow> Inl e)
                       else Inl e,
                   [(Some text, None), (None, image_bytes)], w2))))"

section \<open>Test doubles\<close>

text \<open>
  A backend that answers from a script: the world state is the list of the answers
  still to come, one per call.
\<close>

definition scripted :: "(exn + InvoiceMetadata option) list LLMBackend" where
  "scripted text image_bytes w =
     (case w of [] \<Rightarrow> (Inl (ProviderError ''script exhausted''), []) | r # rs \<Rightarrow> (r, rs))"

definition invoice :: "pyfloat \<Rightarrow> InvoiceMetadata" where
  "invoice c = \<lparr>company_name = ''The Home Depot, Inc.'', po_number = ''4500123'',
                 invoice_number = ''INV-0042'', confidence = c\<rparr>"

text \<open>
  A provider client that always answers with the same invoice; the world state is the
  log of the requests it received, the model name first.
\<close>

definition recording_client :: "(string \<times> message list) list client" where
  "recording_client w model messages = (Inr (invoice (Finite 1)), w @ [(model, messages)])"

definition png :: bytes where
  "png = [0x89, 0x50, 0x4E, 0x47]"

text \<open>
  Unicode tables that know no character beyond U+00FF.  A string below U+0100 never
  consults the tables.
\<close>

definition latin1_only :: unicode_data where
  "latin1_only = \<lparr>alnum_beyond = (\<lambda>c. False), lower_beyond = (\<lambda>s. s),
                   ignorecase_beyond = (\<lambda>a c. c = a)\<rparr>"

section \<open>Auxiliary notions for the proofs about the matcher\<close>

text \<open>The character before the position reached after reading \<open>u\<close> from a position after \<open>b\<close>.\<close>

definition prev_of :: "nat option \<Rightarrow> nat list \<Rightarrow> nat option" where
  "prev_of b u = (if u = [] then b else Some (last u))"

section \<open>The cascade: properties\<close>

text \<open>
  C1.  When the Tier-1 call returns a result whose confidence is greater than or equal
  to the threshold, \<open>process\<close> returns exactly that result with tier \<open>TIER_1\<close>, and the
  call log holds the one text call: the backend is invoked once and never with the
  image.  Equality of confidence and threshold is on the success side (the witness is
  at 0.85 against the default 0.85).
\<close>

theorem C1_tier1_meets_threshold:
  assumes "backend self (Some raw_text) None w = (Inr (Some m), w_mid)"
      and "float_ge (confidence m) (confidence_threshold self)"
  shows "process self raw_text image_bytes w = (Inr (Some m, TIER_1), [(Some raw_text, None)], w_mid)"
  using assms by (simp add: process_def)

theorem C1_tier1_meets_threshold_witness:
  "float_ge (confidence (invoice default_confidence_threshold)) default_confidence_threshold
   \<and> process \<lparr>backend = scripted, confidence_threshold = default_confidence_threshold\<rparr>
        ''Invoice INV-0042'' (Some png) [Inr (Some (invoice default_confidence_threshold))]
     = (Inr (Some (invoice default_confidence_threshold), TIER_1),
        [(Some ''Invoice INV-0042'', None)], [])"
  using C1_tier1_meets_threshold
    [where self = "\<lparr>backend = scripted, confidence_threshold = default_confidence_threshold\<rparr>"
       and raw_text = "''Invoice INV-0042''" and image_bytes = "Some png"
       and w = "[Inr (Some (invoice default_confidence_threshold))]"
       and m = "invoice default_confidence_threshold" and w_mid = "[]"]
  by (simp add: scripted_def invoice_def default_confidence_threshold_def)

text \<open>
  C2.  With an image supplied (present and not empty), a Tier-1 call that returned a
  result below the threshold or raised an exception, and a Tier-2 call that returns,
  \<open>process\<close> returns the Tier-2 result with tier \<open>TIER_2\<close>, whatever that result is: its
  confidence is not looked at (the witness has confidence 0.0).
\<close>

theorem C2_tier2_unconditional:
  assumes "truthy image_bytes"
      and "backend self (Some raw_text) None w = (first, w_mid)"
      and "(\<exists>m. first = Inr (Some m) \<and> \<not> float_ge (confidence m) (confidence_threshold self))
           \<or> (\<exists>e. first = Inl e \<and> is_Exception e)"
      and "backend self None image_bytes w_mid = (Inr vision_result, w_end)"
  shows "process self raw_text image_bytes w =
           (Inr (vision_result, TIER_2), [(Some raw_text, None), (None, image_bytes)], w_end)"
  using assms by (auto simp add: process_def)

theorem C2_tier2_unconditional_witness:
  "process \<lparr>backend = scripted, confidence_threshold = default_confidence_threshold\<rparr>
        ''Invoice INV-0042'' (Some png)
        [Inr (Some (invoice (Finite (1/2)))), Inr (Some (invoice (Finite 0)))]
     = (Inr (Some (invoice (Finite 0)), TIER_2),
        [(Some ''Invoice INV-0042'', None), (None, Some png)], [])
   \<and> process \<lparr>backend = scripted, confidence_threshold = default_confidence_threshold\<rparr>
        ''Invoice INV-0042'' (Some png)
        [Inl (ProviderError ''timeout''), Inr (Some (invoice (Finite 0)))]
     = (Inr (Some (invoice (Finite 0)), TIER_2),
        [(Some ''Invoice INV-0042'', None), (None, Some png)], [])"
  using C2_tier2_unconditional
    [where self = "\<lparr>backend = scripted, confidence_threshold = default_confidence_threshold\<rparr>"
       and raw_text = "''Invoice INV-0042''" and image_bytes = "Some png"
       and w = "[Inr (Some (invoice (Finite (1/2)))), Inr (Some (invoice (Finite 0)))]"
       and first = "Inr (Some (invoice (Finite (1/2))))"
       and w_mid = "[Inr (Some (invoice (Finite 0)))]"
       and vision_result = "Some (invoice (Finite 0))" and w_end = "[]"]
    C2_tier2_unconditional
    [where self = "\<lparr>backend = scripted, confidence_threshold = default_confidence_threshold\<rparr>"
       and raw_text = "''Invoice INV-0042''" and image_bytes = "Some png"
       and w = "[Inl (ProviderError ''timeout''), Inr (Some (invoice (Finite 0)))]"
       and first = "Inl (ProviderError ''timeout'')"
       and w_mid = "[Inr (Some (invoice (Finite 0)))]"
       and vision_result = "Some (invoice (Finite 0))" and w_end = "[]"]
  by (simp add: scripted_def invoice_def default_confidence_threshold_def png_def)

text \<open>
  C3.  With no image supplied (absent or empty): a Tier-1 result below the threshold is
  returned with tier \<open>TIER_1\<close>; a Tier-1 call that raised makes \<open>process\<close> fail, with
  the \<^verbatim>\<open>ValueError\<close> "Extraction failed and no image available for fallback." when the
  handler caught the exception, and with the signal itself when it is no
  \<^verbatim>\<open>Exception\<close>.  In both cases the backend was called once.
\<close>

theorem C3_no_image:
  assumes "\<not> truthy image_bytes"
      and "backend self (Some raw_text) None w = (first, w_mid)"
  shows "(\<forall>m. first = Inr (Some m) \<and> \<not> float_ge (confidence m) (confidence_threshold self) \<longrightarrow>
            process self raw_text image_bytes w = (Inr (Some m, TIER_1), [(Some raw_text, None)], w_mid))
       \<and> (\<forall>e. first = Inl e \<longrightarrow>
            process self raw_text image_bytes w =
              (Inl (if is_Exception e
                    then ValueError ''Extraction failed and no image available for fallback.''
                    else e), [(Some raw_text, None)], w_mid))"
  using assms by (auto simp add: process_def)

theorem C3_no_image_witness:
  "process \<lparr>backend = scripted, confidence_threshold = default_confidence_threshold\<rparr>
        ''Invoice INV-0042'' None [Inr (Some (invoice (Finite (1/2))))]
     = (Inr (Some (invoice (Finite (1/2))), TIER_1), [(Some ''Invoice INV-0042'', None)], [])
   \<and> process \<lparr>backend = scripted, confidence_threshold = default_confidence_threshold\<rparr>
        ''Invoice INV-0042'' (Some []) [Inl (ProviderError ''timeout'')]
     = (Inl (ValueError ''Extraction failed and no image available for fallback.''),
        [(Some ''Invoice INV-0042'', None)], [])"
  using C3_no_image
    [where self = "\<lparr>backend = scripted, confidence_threshold = default_confidence_threshold\<rparr>"
       and raw_text = "''Invoice INV-0042''" and image_bytes = None
       and w = "[Inr (Some (invoice (Finite (1/2))))]"
       and first = "Inr (Some (invoice (Finite (1/2))))" and w_mid = "[]"]
    C3_no_image
    [where self = "\<lparr>backend = scripted, confidence_threshold = default_confidence_threshold\<rparr>"
       and raw_text = "''Invoice INV-0042''" and image_bytes = "Some []"
       and w = "[Inl (ProviderError ''timeout'')]"
       and first = "Inl (ProviderError ''timeout'')" and w_mid = "[]"]
  by (simp add: scripted_def invoice_def default_confidence_threshold_def)

text \<open>
  C4.  With an image supplied and a Tier-2 call that raises: after a Tier-1 result
  below the threshold, \<open>process\<close> returns that Tier-1 result with tier \<open>TIER_1\<close> (the
  Tier-2 exception being one the handler catches); after a Tier-1 exception, \<open>process\<close>
  fails with the Tier-2 exception itself, and the outcome is that error alone: an error
  carries no result.
\<close>

theorem C4_tier2_raises:
  assumes "truthy image_bytes"
      and "backend self (Some raw_text) None w = (first, w_mid)"
      and "backend self None image_bytes w_mid = (Inl err, w_end)"
  shows "(\<forall>m. first = Inr (Some m) \<and> \<not> float_ge (confidence m) (confidence_threshold self)
              \<and> is_Exception err \<longrightarrow>
            process self raw_text image_bytes w =
              (Inr (Some m, TIER_1), [(Some raw_text, None), (None, image_bytes)], w_end))
       \<and> (\<forall>e. first = Inl e \<and> is_Exception e \<longrightarrow>
            process self raw_text image_bytes w =
              (Inl err, [(Some raw_text, None), (None, image_bytes)], w_end))"
  using assms by (auto simp add: process_def)

theorem C4_tier2_raises_witness:
  "process \<lparr>backend = scripted, confidence_threshold = default_confidence_threshold\<rparr>
        ''Invoice INV-0042'' (Some png)
        [Inr (Some (invoice (Finite (1/2)))), Inl (ProviderError ''vision failed'')]
     = (Inr (Some (invoice (Finite (1/2))), TIER_1),
        [(Some ''Invoice INV-0042'', None), (None, Some png)], [])
   \<and> process \<lparr>backend = scripted, confidence_threshold = default_confidence_threshold\<rparr>
        ''Invoice INV-0042'' (Some png)
        [Inl (ProviderError ''timeout''), Inl (ProviderError ''vision failed'')]
     = (Inl (ProviderError ''vision failed''),
        [(Some ''Invoice INV-0042'', None), (None, Some png)], [])"
  using C4_tier2_raises
    [where self = "\<lparr>backend = scripted, confidence_threshold = default_confidence_threshold\<rparr>"
       and raw_text = "''Invoice INV-0042''" and image_bytes = "Some png"
       and w = "[Inr (Some (invoice (Finite (1/2)))), Inl (ProviderError ''vision failed'')]"
       and first = "Inr (Some (invoice (Finite (1/2))))"
       and w_mid = "[Inl (ProviderError ''vision failed'')]"
       and err = "ProviderError ''vision failed''" and w_end = "[]"]
    C4_tier2_raises
    [where self = "\<lparr>backend = scripted, confidence_threshold = default_confidence_threshold\<rparr>"
       and raw_text = "''Invoice INV-0042''" and image_bytes = "Some png"
       and w = "[Inl (ProviderError ''timeout''), Inl (ProviderError ''vision failed'')]"
       and first = "Inl (ProviderError ''timeout'')"
       and w_mid = "[Inl (ProviderError ''vision failed'')]"
       and err = "ProviderError ''vision failed''" and w_end = "[]"]
  by (simp add: scripted_def invoice_def default_confidence_threshold_def png_def)

section \<open>The backends: properties\<close>



text \<open>
  C8.  The OpenAI backend calls the provider with model A (\<^verbatim>\<open>MODEL_A_NAME\<close>, the fast
  and cheap one) when a text is supplied and no image is, and with model B
  (\<^verbatim>\<open>MODEL_B_NAME\<close>, the smart and expensive one) whenever an image is supplied.
  Supplied means present and not empty, which is how the code tests its arguments.
\<close>

theorem C8_model_selection:
  "(truthy text \<and> \<not> truthy image_bytes \<longrightarrow>
      OpenAIBackend cfg client text image_bytes w =
        create client (MODEL_A_NAME cfg)
          [(''system'', ''You are an expert invoice parser.''),
           (''user'', ''Extract invoice details from this text:'' @ [CHR 0x0A, CHR 0x0A] @ the text)] w)
   \<and> (truthy image_bytes \<longrightarrow>
      OpenAIBackend cfg client text image_bytes w =
        create client (MODEL_B_NAME cfg) [(''user'', ''Extract invoice details from this image.'')] w)"
  by (simp add: OpenAIBackend_def)

theorem C8_model_selection_witness:
  "OpenAIBackend settings recording_client (Some ''PO 4500123'') None []
     = (Inr (Some (invoice (Finite 1))),
        [(''gpt-4o-mini'', [(''system'', ''You are an expert invoice parser.''),
           (''user'', ''Extract invoice details from this text:'' @ [CHR 0x0A, CHR 0x0A] @ ''PO 4500123'')])])
   \<and> OpenAIBackend settings recording_client None (Some png) []
     = (Inr (Some (invoice (Finite 1))),
        [(''gpt-4o'', [(''user'', ''Extract invoice details from this image.'')])])"
  using C8_model_selection [of "Some ''PO 4500123''" None settings recording_client "[]"]
        C8_model_selection [of None "Some png" settings recording_client "[]"]
  by (simp add: create_def recording_client_def settings_def png_def)

text \<open>
  C10.  A call of the OpenAI backend with the empty text and no image takes neither
  branch and raises (\<^verbatim>\<open>UnboundLocalError\<close>) without reaching the provider.
  \<open>extract_text\<close> gives the empty string when reading the document fails.  So with the
  empty text Tier 1 of the cascade fails, no Tier-1 result is ever returned, and when an
  image is supplied the Tier-2 call is made with model B and decides the outcome; with
  no image, \<open>process\<close> fails.
\<close>

theorem C10_empty_text:
  "OpenAIBackend cfg client (Some []) None w = (Inl (UnboundLocalError ''model''), w)
   \<and> (is_Exception e \<longrightarrow> extract_text (Inl e) = Inr [])
   \<and> process \<lparr>backend = OpenAIBackend cfg client, confidence_threshold = thr\<rparr> [] image_bytes w =
       (if truthy image_bytes then
          (case create client (MODEL_B_NAME cfg)
                  [(''user'', ''Extract invoice details from this image.'')] w of
             (Inr vision_result, w') \<Rightarrow>
               (Inr (vision_result, TIER_2), [(Some [], None), (None, image_bytes)], w')
           | (Inl err, w') \<Rightarrow> (Inl err, [(Some [], None), (None, image_bytes)], w'))
        else (Inl (ValueError ''Extraction failed and no image available for fallback.''),
              [(Some [], None)], w))"
  by (auto simp add: OpenAIBackend_def process_def extract_text_def split: sum.splits prod.splits)

theorem C10_empty_text_witness:
  "extract_text (Inl (ProviderError ''cannot open file'')) = Inr []
   \<and> process \<lparr>backend = OpenAIBackend settings recording_client,
               confidence_threshold = default_confidence_threshold\<rparr> [] (Some png) []
     = (Inr (Some (invoice (Finite 1)), TIER_2), [(Some [], None), (None, Some png)],
        [(''gpt-4o'', [(''user'', ''Extract invoice details from this image.'')])])"
  using C10_empty_text [of settings recording_client "[]" "ProviderError ''cannot open file''"
                          default_confidence_threshold "Some png"]
  by (simp add: create_def recording_client_def settings_def png_def)

section \<open>The matcher on a string of word characters\<close>

lemma isalnum_not_space: "isalnum ucd c \<Longrightarrow> \<not> isspace c"
  by (auto simp add: isalnum_def isspace_def split: if_splits)

lemma is_word_not_space: "is_word ucd c \<Longrightarrow> \<not> isspace c"
  by (auto simp add: is_word_def isalnum_def isspace_def split: if_splits)

lemma isalnum_word: "isalnum ucd c \<Longrightarrow> is_word ucd c"
  by (simp add: is_word_def)

lemma prev_of_simps [simp]:
  "prev_of b [] = b"
  "prev_of b (c # u) = prev_of (Some c) u"
  by (simp_all add: prev_of_def)

lemma matches_lits:
  "matches ucd True (lits a) (b, s) =
     (if length a \<le> length s \<and> list_all2 (ignorecase_eq ucd) (py a) (take (length a) s)
      then [(prev_of b (take (length a) s), drop (length a) s)] else [])"
proof (induction a arbitrary: b s)
  case Nil
  then show ?case by (simp add: py_def)
next
  case (Cons x xs)
  show ?case
  proof (cases s)
    case Nil
    then show ?thesis by simp
  next
    case (Cons c cs)
    then show ?thesis using Cons.IH [of "Some c" cs] by (simp add: py_def)
  qed
qed

text \<open>
  A suffix word that is matched inside a string of word characters, and not up to its
  end, is followed by a word character: no boundary, no match.
\<close>

lemma lits_then_boundary:
  assumes w: "list_all (is_word ucd) s" and ne: "a \<noteq> []"
      and nf: "\<not> list_ex (\<lambda>p. snd p = []) (matches ucd True (lits a) (b, s))"
  shows "concat (map (matches ucd True (Seq WordB r)) (matches ucd True (lits a) (b, s))) = []"
proof (cases "length a \<le> length s \<and> list_all2 (ignorecase_eq ucd) (py a) (take (length a) s)")
  case False
  then have m0: "matches ucd True (lits a) (b, s) = []" by (simp add: matches_lits)
  show ?thesis unfolding m0 by simp
next
  case True
  let ?n = "length a"
  have m: "matches ucd True (lits a) (b, s) = [(prev_of b (take ?n s), drop ?n s)]"
    using True by (simp add: matches_lits)
  have dne: "drop ?n s \<noteq> []" using nf unfolding m by simp
  have "set (drop ?n s) \<subseteq> set s" by (rule set_drop_subset)
  then have wa: "word_at ucd (drop ?n s)"
    using dne w by (cases "drop ?n s") (auto simp add: list_all_iff)
  have tne: "take ?n s \<noteq> []" using ne True by auto
  then have "last (take ?n s) \<in> set (take ?n s)" by simp
  then have "last (take ?n s) \<in> set s" using set_take_subset by fastforce
  then have wb: "word_before ucd (prev_of b (take ?n s))"
    using tne w by (simp add: prev_of_def list_all_iff)
  show ?thesis unfolding m using wa wb by simp
qed

lemma no_fullmatch_parts:
  assumes "\<not> fullmatch ucd True suffix_words s"
  shows "\<not> list_ex (\<lambda>p. snd p = []) (matches ucd True (lits ''inc'') (None, s))"
    and "\<not> list_ex (\<lambda>p. snd p = []) (matches ucd True (lits ''corp'') (None, s))"
    and "\<not> list_ex (\<lambda>p. snd p = []) (matches ucd True (lits ''llc'') (None, s))"
    and "\<not> list_ex (\<lambda>p. snd p = []) (matches ucd True (lits ''ltd'') (None, s))"
    and "\<not> list_ex (\<lambda>p. snd p = []) (matches ucd True (lits ''incorporated'') (None, s))"
    and "\<not> list_ex (\<lambda>p. snd p = []) (matches ucd True (lits ''corporation'') (None, s))"
  using assms
  by (simp_all add: fullmatch_def suffix_words_def list_ex_iff del: lits.simps)

lemma no_match_at_start:
  assumes w: "list_all (is_word ucd) s" and nf: "\<not> fullmatch ucd True suffix_words s"
  shows "matches ucd True suffix_pattern (None, s) = []"
proof -
  note parts = no_fullmatch_parts [OF nf]
  have "concat (map (matches ucd True (Seq WordB (Opt (Lit 0x2E))))
          (matches ucd True suffix_words (None, s))) = []"
    unfolding suffix_words_def
    using lits_then_boundary [OF w _ parts(1)] lits_then_boundary [OF w _ parts(2)]
      lits_then_boundary [OF w _ parts(3)] lits_then_boundary [OF w _ parts(4)]
      lits_then_boundary [OF w _ parts(5)] lits_then_boundary [OF w _ parts(6)]
    by (simp del: lits.simps matches.simps(6,7,9))
  then show ?thesis
    by (simp add: suffix_pattern_def del: matches.simps(9))
qed

lemma no_match_inside:
  "word_before ucd b \<Longrightarrow> word_at ucd s \<Longrightarrow> matches ucd True suffix_pattern (b, s) = []"
  by (simp add: suffix_pattern_def)

lemma sub_from_inside:
  "list_all (is_word ucd) s \<Longrightarrow> word_before ucd b \<Longrightarrow> sub_from ucd True suffix_pattern b s = s"
proof (induction s arbitrary: b)
  case Nil
  then show ?case by simp
next
  case (Cons c cs)
  then have "matches ucd True suffix_pattern (b, c # cs) = []"
    by (simp add: no_match_inside)
  then show ?case using Cons by simp
qed

lemma re_sub_suffix_one_word:
  assumes w: "list_all (is_word ucd) s" and nf: "\<not> fullmatch ucd True suffix_words s"
  shows "re_sub ucd True suffix_pattern s = s"
proof (cases s)
  case Nil
  then show ?thesis by (simp add: re_sub_def)
next
  case (Cons c cs)
  have "matches ucd True suffix_pattern (None, c # cs) = []"
    using no_match_at_start [OF w nf] Cons by simp
  moreover have "sub_from ucd True suffix_pattern (Some c) cs = cs"
    using w Cons by (simp add: sub_from_inside)
  ultimately show ?thesis using Cons by (simp add: re_sub_def)
qed

lemma sub_from_special:
  "sub_from ucd False special_pattern b s = filter (\<lambda>c. is_word ucd c \<or> isspace c) s"
  by (induction s arbitrary: b) (simp_all add: special_pattern_def)

lemma re_sub_special:
  "re_sub ucd False special_pattern s = filter (\<lambda>c. is_word ucd c \<or> isspace c) s"
  by (simp add: re_sub_def sub_from_special)

lemma strip_id:
  assumes "s \<noteq> []" and "\<not> isspace (hd s)" and "\<not> isspace (last s)"
  shows "strip s = s"
proof -
  have 1: "dropWhile isspace s = s" using assms by (cases s) simp_all
  have "rev s \<noteq> []" and "\<not> isspace (hd (rev s))" using assms by (simp_all add: hd_rev)
  then have 2: "dropWhile isspace (rev s) = rev s" by (cases "rev s") simp_all
  show ?thesis by (simp add: strip_def 1 2)
qed

lemma clean_name_alnum:
  assumes ne: "s \<noteq> []" and an: "list_all (isalnum ucd) s"
      and nf: "\<not> fullmatch ucd True suffix_words s"
  shows "clean_name ucd s = s"
proof -
  have w: "list_all (is_word ucd) s" using an by (simp add: list_all_iff isalnum_word)
  have "hd s \<in> set s" and "last s \<in> set s" using ne by simp_all
  then have "\<not> isspace (hd s)" and "\<not> isspace (last s)"
    using an isalnum_not_space by (auto simp add: list_all_iff)
  then have st: "strip s = s" using ne by (simp add: strip_id)
  have f: "filter (\<lambda>c. is_word ucd c \<or> isspace c) s = s"
    using w by (simp add: list_all_iff)
  show ?thesis
    by (simp add: clean_name_def st re_sub_suffix_one_word [OF w nf] re_sub_special f)
qed

lemma lookup_None_iff:
  "lookup ucd m x = None \<longleftrightarrow> x \<notin> set (map (lower ucd \<circ> fst) m)"
  by (induction ucd m x rule: lookup.induct) auto

section \<open>The normalizer: properties\<close>

text \<open>The definitions that evaluate the normalizer on a given string.\<close>

lemmas clean_eval =
  clean_name_def strip_def isspace_def re_sub_def suffix_pattern_def
  suffix_words_def special_pattern_def is_word_def isalnum_def ignorecase_eq_def py_def

lemmas normalizer_eval =
  normalize_def clean_eval lower_def lower_char_def fullmatch_def

lemma fresh_after_add_mapping:
  "fst (new_CompanyNormalizer (snd (add_mapping self a b \<lparr>shortnames = f, writable = True\<rparr>)))
     = \<lparr>mappings = AList.update a b (mappings self)\<rparr>"
  by (simp add: add_mapping_def save_dictionary_def new_CompanyNormalizer_def
      load_dictionary_def Let_def)

text \<open>
  C6.  What the code does where the round trip is stated.  \<open>add_mapping\<close> stores the key
  as it is given, and \<open>normalize\<close> compares the keys with the cleaned name, so the entry
  matches no input.  After adding the name of the docstring, \<^verbatim>\<open>"The Home Depot Inc."\<close>,
  with the value \<^verbatim>\<open>"HomeDepot"\<close>, a normalizer built afresh from the store answers
  \<^verbatim>\<open>"TheHomeDepot"\<close> for that name; after adding \<^verbatim>\<open>"Acme, Inc."\<close> with \<^verbatim>\<open>"ACME"\<close> it
  answers \<^verbatim>\<open>"Acme"\<close>.  This holds whatever the Unicode tables are.
\<close>

theorem C6_added_entry_never_matches:
  "normalize ucd (fst (new_CompanyNormalizer (snd (add_mapping
       \<lparr>mappings = []\<rparr> (py ''The Home Depot Inc.'') (py ''HomeDepot'')
       \<lparr>shortnames = Json [], writable = True\<rparr>))))
     (Some (py ''The Home Depot Inc.'')) = py ''TheHomeDepot''
   \<and> normalize ucd (fst (new_CompanyNormalizer (snd (add_mapping
       \<lparr>mappings = []\<rparr> (py ''Acme, Inc.'') (py ''ACME'')
       \<lparr>shortnames = Json [], writable = True\<rparr>))))
     (Some (py ''Acme, Inc.'')) = py ''Acme''"
proof -
  have c1: "clean_name ucd (py ''The Home Depot Inc.'') = py ''The Home Depot''"
    by (simp add: clean_eval)
  have c2: "clean_name ucd (py ''Acme, Inc.'') = py ''Acme''"
    by (simp add: clean_eval)
  have l1: "lower ucd (py ''The Home Depot Inc.'') \<noteq> lower ucd (py ''The Home Depot'')"
    by (simp add: lower_def lower_char_def py_def)
  have l2: "lower ucd (py ''Acme, Inc.'') \<noteq> lower ucd (py ''Acme'')"
    by (simp add: lower_def lower_char_def py_def)
  have f1: "filter (\<lambda>c. c \<noteq> 0x20) (py ''The Home Depot'') = py ''TheHomeDepot''"
    by (simp add: py_def)
  have f2: "filter (\<lambda>c. c \<noteq> 0x20) (py ''Acme'') = py ''Acme''"
    by (simp add: py_def)
  have ne: "py ''The Home Depot Inc.'' \<noteq> []" "py ''Acme, Inc.'' \<noteq> []"
    by (simp_all add: py_def)
  show ?thesis
    unfolding fresh_after_add_mapping
    using l1 l2 ne by (simp add: normalize_def c1 c2 f1 f2)
qed

text \<open>
  C7.  What the code does where the removal of every character that is neither
  alphanumeric nor whitespace is stated.  The underscore is neither, and it stays:
  \<^verbatim>\<open>"A_B"\<close> gives \<^verbatim>\<open>"A_B"\<close>, and \<^verbatim>\<open>"Acme_Corp"\<close> stays whole, suffix and all, because
  the class \<^verbatim>\<open>\w\<close> of the pattern holds the underscore.
\<close>

theorem C7_underscore_is_kept:
  "normalize ucd \<lparr>mappings = []\<rparr> (Some (py ''A_B'')) = py ''A_B''
   \<and> \<not> isalnum ucd (of_char CHR ''_'') \<and> \<not> isspace (of_char CHR ''_'')
   \<and> normalize ucd \<lparr>mappings = []\<rparr> (Some (py ''Acme_Corp'')) = py ''Acme_Corp''"
  by (simp add: normalizer_eval)

text \<open>
  The matcher folds U+0130 to \<^verbatim>\<open>i\<close>: where the tables know that character as
  alphanumeric, the name \<^verbatim>\<open>"\u0130nc"\<close> is a suffix word and is removed.
\<close>

lemma normalize_dotted_I_inc:
  "alnum_beyond ucd 0x130 \<Longrightarrow> normalize ucd \<lparr>mappings = []\<rparr> (Some [0x130, 0x6E, 0x63]) = []"
  by (simp add: normalizer_eval)

text \<open>
  C9, as the code has it.  A string that is not empty, holds alphanumeric characters
  only, is not as a whole one of the suffix words of the pattern under
  \<^verbatim>\<open>re.IGNORECASE\<close>, and equals no dictionary key after \<^verbatim>\<open>lower()\<close>, is left unchanged
  by \<open>normalize\<close>.  This holds for every string of code points and whatever the Unicode
  tables are, so for every such output of \<open>normalize\<close>.
\<close>

theorem C9_normalize_fixes_clean_names:
  assumes "s \<noteq> []" and "list_all (isalnum ucd) s"
      and "\<not> fullmatch ucd True suffix_words s"
      and "lower ucd s \<notin> set (map (lower ucd \<circ> fst) (mappings self))"
  shows "normalize ucd self (Some s) = s"
proof -
  have c: "clean_name ucd s = s" using assms(1-3) by (rule clean_name_alnum)
  have "lookup ucd (mappings self) (lower ucd s) = None"
    using assms(4) by (simp add: lookup_None_iff)
  moreover have "filter (\<lambda>c. c \<noteq> 0x20) s = s"
  proof -
    have "x \<noteq> 0x20" if "x \<in> set s" for x
    proof -
      have "isalnum ucd x" using assms(2) that by (simp add: list_all_iff)
      then have "\<not> isspace x" by (rule isalnum_not_space)
      then show ?thesis by (auto simp add: isspace_def)
    qed
    then show ?thesis by simp
  qed
  ultimately show ?thesis using assms(1) by (simp add: normalize_def c)
qed

theorem C9_normalize_fixes_clean_names_witness:
  "normalize latin1_only \<lparr>mappings = [(py ''home depot'', py ''HomeDepot'')]\<rparr>
     (Some (py ''TheHomeDepot'')) = py ''TheHomeDepot''"
proof -
  have "py ''TheHomeDepot'' \<noteq> []" by (simp add: py_def)
  moreover have "list_all (isalnum latin1_only) (py ''TheHomeDepot'')"
    by (simp add: normalizer_eval)
  moreover have "\<not> fullmatch latin1_only True suffix_words (py ''TheHomeDepot'')"
    by (simp add: normalizer_eval)
  moreover have "lower latin1_only (py ''TheHomeDepot'')
      \<notin> set (map (lower latin1_only \<circ> fst)
            (mappings \<lparr>mappings = [(py ''home depot'', py ''HomeDepot'')]\<rparr>))"
    by (simp add: normalizer_eval)
  ultimately show ?thesis
    using C9_normalize_fixes_clean_names
      [of "py ''TheHomeDepot''" latin1_only "\<lparr>mappings = [(py ''home depot'', py ''HomeDepot'')]\<rparr>"]
    by simp
qed

text \<open>
  C9 as stated fails: \<^verbatim>\<open>"LLC"\<close> is the output of \<open>normalize\<close> for \<^verbatim>\<open>"L.L.C."\<close>, holds
  alphanumeric characters only and matches no key of the empty dictionary, but
  \<open>normalize\<close> turns it into the empty string.
\<close>

theorem C9_idempotence_counterexample:
  "normalize latin1_only \<lparr>mappings = []\<rparr> (Some (py ''L.L.C.'')) = py ''LLC''
   \<and> list_all (isalnum latin1_only) (py ''LLC'')
   \<and> lookup latin1_only (mappings \<lparr>mappings = []\<rparr>) (lower latin1_only (clean_name latin1_only (py ''LLC''))) = None
   \<and> normalize latin1_only \<lparr>mappings = []\<rparr> (Some (py ''LLC'')) = []
   \<and> normalize latin1_only \<lparr>mappings = []\<rparr> (Some (py ''LLC'')) \<noteq> py ''LLC''"
  by (simp add: normalizer_eval)

end
